theory Spec2Isabelle
  imports Complex_Main "HOL-Library.Char_ord" "HOL-Library.List_Lexorder"
begin

section \<open>Timeline fishbone generator: data model\<close>

text \<open>
  The dataset is a pandas DataFrame with the four columns year, category, method name and
  citation key; it is modelled as the list of its rows in file order. Years are integers
  (the loader casts the column with \<open>astype(int)\<close>). Python \<open>float\<close> values
  (the spacing fields of \<open>LayoutConfig\<close>) are modelled as \<open>real\<close>: comparisons,
  \<open>max\<close> and \<open>min\<close> are exact on floats, rounding of products and NaN are not modelled.
\<close>

record row =
  r_year :: int
  r_category :: string
  r_name :: string
  r_ref :: string

type_synonym dataframe = "row list"

record LayoutConfig =
  timeline_width :: string
  year_spacing :: real
  branch_distance :: real
  spine_length :: real
  smart_spacing :: bool
  min_year_spacing :: real

record TimeLogicConfig =
  time_direction :: string
  start_year :: int
  end_year :: int
  upper_years :: "string option"
  lower_years :: string

text \<open>Exceptions of the Python runtime that the modelled code can meet.\<close>

datatype py_error = ValueError | AttributeError | TypeError | KeyError | IndexError

text \<open>A number that is a Python \<open>int\<close> or a Python \<open>float\<close>; the two print differently.\<close>

datatype pynum = PyInt int | PyFloat real

fun num_val :: "pynum \<Rightarrow> real" where
  "num_val (PyInt i) = real_of_int i"
| "num_val (PyFloat r) = r"

subsection \<open>pandas and list helpers\<close>

text \<open>\<open>Series.unique()\<close>: the distinct values in order of first appearance.\<close>

fun unique_acc :: "'a list \<Rightarrow> 'a list \<Rightarrow> 'a list" where
  "unique_acc seen [] = []"
| "unique_acc seen (x # xs) =
     (if x \<in> set seen then unique_acc seen xs else x # unique_acc (x # seen) xs)"

definition unique :: "'a list \<Rightarrow> 'a list" where
  "unique xs = unique_acc [] xs"

text \<open>\<open>df.groupby(year).size().to_dict()\<close>: one entry per distinct year, keys ascending.\<close>

definition groupby_size :: "dataframe \<Rightarrow> (int \<times> nat) list" where
  "groupby_size df =
     map (\<lambda>y. (y, length (filter (\<lambda>r. r_year r = y) df))) (sort (unique (map r_year df)))"

text \<open>\<open>max(values)\<close> of a non-empty sequence; Python raises ValueError on an empty one.\<close>

fun py_max :: "nat list \<Rightarrow> py_error + nat" where
  "py_max [] = Inl ValueError"
| "py_max (v # vs) = Inr (fold max vs v)"

section \<open>Layout engine\<close>

record layout_params =
  year_counts :: "(int \<times> nat) list"
  max_nodes :: nat
  years :: "int list"
  positions :: "int \<rightharpoonup> real"
  adjusted_spacing :: real
  adjusted_branch :: real
  total_width :: pynum

text \<open>The engine object: its two configurations and the mutable field \<open>_year_order\<close>.\<close>

record engine =
  config :: LayoutConfig
  time_config :: TimeLogicConfig
  year_order :: "int list"

definition init_engine :: "LayoutConfig \<Rightarrow> TimeLogicConfig \<Rightarrow> engine" where
  "init_engine lc tc = \<lparr>config = lc, time_config = tc, year_order = []\<rparr>"

text \<open>The loop \<open>for i, year in enumerate(years): positions[year] = start + i * spacing\<close>
  with \<open>start = 0\<close>.\<close>

fun fill_positions :: "real \<Rightarrow> (nat \<times> int) list \<Rightarrow> (int \<rightharpoonup> real) \<Rightarrow> (int \<rightharpoonup> real)" where
  "fill_positions sp [] m = m"
| "fill_positions sp ((i, y) # rest) m = fill_positions sp rest (m(y \<mapsto> 0 + real i * sp))"

definition calc_max_nodes :: "(int \<times> nat) list \<Rightarrow> nat" where
  "calc_max_nodes yc =
     (if yc \<noteq> [] then (case py_max (map snd yc) of Inr m \<Rightarrow> m | Inl e \<Rightarrow> 1) else 1)"

definition calculate_layout :: "engine \<Rightarrow> dataframe \<Rightarrow> layout_params \<times> engine" where
  "calculate_layout e df =
     (let yc = groupby_size df;
          mx = calc_max_nodes yc;
          ys = sort (unique (map r_year df));
          e' = e\<lparr>year_order := ys\<rparr>;
          (sp, br) =
            (if smart_spacing (config e) then
               (let base_spacing = year_spacing (config e);
                    req_width = real mx * 2.5;
                    asp = max (min_year_spacing (config e)) (min req_width base_spacing);
                    base_branch = branch_distance (config e);
                    abr = max base_branch (real mx * 0.6)
                in (asp, abr))
             else (year_spacing (config e), branch_distance (config e)));
          pos = fill_positions sp (enumerate 0 ys) Map.empty;
          total_w = (if length ys > 1 then PyFloat (real (length ys - 1) * sp) else PyInt 0)
      in (\<lparr>year_counts = yc, max_nodes = mx, years = ys, positions = pos,
            adjusted_spacing = sp, adjusted_branch = br, total_width = total_w\<rparr>, e'))"

subsection \<open>Strings and integer parsing\<close>

text \<open>
  Rule strings are modelled as byte strings and are assumed to be ASCII: \<open>str.lower\<close>
  maps \<open>A..Z\<close> to \<open>a..z\<close>, \<open>str.strip\<close> removes the ASCII whitespace characters,
  and \<open>int(s)\<close> accepts an optional sign followed by decimal digits, with single
  underscores allowed between digits. The interpreter's limit on the number of digits
  is not modelled.
\<close>

definition lower_char :: "char \<Rightarrow> char" where
  "lower_char c =
     (case map_of (zip ''ABCDEFGHIJKLMNOPQRSTUVWXYZ'' ''abcdefghijklmnopqrstuvwxyz'') c of
        Some d \<Rightarrow> d
      | None \<Rightarrow> c)"

definition py_lower :: "string \<Rightarrow> string" where
  "py_lower s = map lower_char s"

fun split_on :: "char \<Rightarrow> string \<Rightarrow> string \<Rightarrow> string list" where
  "split_on sep acc [] = [rev acc]"
| "split_on sep acc (c # cs) =
     (if c = sep then rev acc # split_on sep [] cs else split_on sep (c # acc) cs)"

definition py_split :: "char \<Rightarrow> string \<Rightarrow> string list" where
  "py_split sep s = split_on sep [] s"

definition is_space :: "char \<Rightarrow> bool" where
  "is_space c = (c \<in> set [CHR 0x09, CHR 0x0A, CHR 0x0B, CHR 0x0C, CHR 0x0D,
                            CHR 0x1C, CHR 0x1D, CHR 0x1E, CHR 0x1F, CHR 0x20])"

definition py_strip :: "string \<Rightarrow> string" where
  "py_strip s = rev (dropWhile is_space (rev (dropWhile is_space s)))"

definition is_digit :: "char \<Rightarrow> bool" where
  "is_digit c = (CHR ''0'' \<le> c \<and> c \<le> CHR ''9'')"

definition digit_val :: "char \<Rightarrow> nat" where
  "digit_val c = of_char c - 48"

fun digits_ok :: "string \<Rightarrow> bool" where
  "digits_ok [] = False"
| "digits_ok [c] = is_digit c"
| "digits_ok (c # d # cs) =
     (is_digit c \<and> (if d = CHR ''_'' then digits_ok cs else digits_ok (d # cs)))"

definition digits_value :: "string \<Rightarrow> nat" where
  "digits_value s = foldl (\<lambda>a c. 10 * a + digit_val c) 0 (filter (\<lambda>c. c \<noteq> CHR ''_'') s)"

text \<open>\<open>int(s)\<close> for a string: the value, or ValueError.\<close>

definition py_int :: "string \<Rightarrow> py_error + int" where
  "py_int s =
     (let t = py_strip s;
          neg = (t \<noteq> [] \<and> hd t = CHR ''-'');
          body = (if t \<noteq> [] \<and> (hd t = CHR ''-'' \<or> hd t = CHR ''+'') then tl t else t)
      in if digits_ok body
         then Inr (if neg then - int (digits_value body) else int (digits_value body))
         else Inl ValueError)"

text \<open>\<open>list.index(x)\<close>: the first position of \<open>x\<close>, or ValueError.\<close>

fun py_index :: "'a list \<Rightarrow> 'a \<Rightarrow> py_error + nat" where
  "py_index [] x = Inl ValueError"
| "py_index (y # ys) x =
     (if y = x then Inr 0
      else (case py_index ys x of Inl err \<Rightarrow> Inl err | Inr i \<Rightarrow> Inr (Suc i)))"

subsection \<open>Side assignment\<close>

text \<open>A record written to the logger at warning level; the payload is the offending rule.\<close>

datatype log_record = LogWarning string

text \<open>The comprehension \<open>[int(y.strip()) for y in year_strs if y.strip()]\<close>; the first
  failing conversion raises.\<close>

fun parse_upper_list :: "string list \<Rightarrow> py_error + int list" where
  "parse_upper_list [] = Inr []"
| "parse_upper_list (y # ys) =
     (if py_strip y \<noteq> [] then
        (case py_int (py_strip y) of
           Inl err \<Rightarrow> Inl err
         | Inr v \<Rightarrow> (case parse_upper_list ys of
                        Inl err \<Rightarrow> Inl err
                      | Inr vs \<Rightarrow> Inr (v # vs)))
      else parse_upper_list ys)"

text \<open>The block \<open>try: index = year_order.index(year) except ValueError: index = 0\<close>
  followed by the parity test. Any other exception would propagate.\<close>

definition order_side :: "int list \<Rightarrow> int \<Rightarrow> py_error + string" where
  "order_side yo yr =
     (case py_index yo yr of
        Inr index \<Rightarrow> Inr (if index mod 2 = 0 then ''above'' else ''below'')
      | Inl err \<Rightarrow>
          if err = ValueError then Inr (if (0::nat) mod 2 = 0 then ''above'' else ''below'')
          else Inl err)"

text \<open>\<open>determine_side\<close> returns the side, or the exception that escapes, together with
  the warnings it logged.\<close>

definition determine_side :: "engine \<Rightarrow> int \<Rightarrow> (py_error + string) \<times> log_record list" where
  "determine_side e yr =
     (let upper_rule = py_lower (case upper_years (time_config e) of None \<Rightarrow> [] | Some s \<Rightarrow> s);
          yo = (if year_order e \<noteq> [] then year_order e else [yr])
      in if upper_rule \<in> set [''order'', ''sequence'', ''index''] then (order_side yo yr, [])
         else if upper_rule = ''odd''
           then (Inr (if yr mod 2 = 1 then ''above'' else ''below''), [])
         else if upper_rule = ''even''
           then (Inr (if yr mod 2 = 0 then ''above'' else ''below''), [])
         else (case parse_upper_list (py_split (CHR '','') upper_rule) of
                 Inr upper_list \<Rightarrow>
                   (Inr (if yr \<in> set upper_list then ''above'' else ''below''), [])
               | Inl err \<Rightarrow>
                   if err = ValueError \<or> err = AttributeError
                   then (order_side yo yr, [LogWarning upper_rule])
                   else (Inl err, [])))"

text \<open>Names for the two local values \<open>upper_rule\<close> and \<open>year_order\<close> of
  \<open>determine_side\<close>, used to state its properties.\<close>

definition rule_of :: "engine \<Rightarrow> string" where
  "rule_of e = py_lower (case upper_years (time_config e) of None \<Rightarrow> [] | Some s \<Rightarrow> s)"

definition order_of :: "engine \<Rightarrow> int \<Rightarrow> int list" where
  "order_of e yr = (if year_order e \<noteq> [] then year_order e else [yr])"

section \<open>Configuration of the generator\<close>

record VisualConfig =
  node_width :: string
  node_height :: string
  node_font :: string
  ref_font :: string
  inner_sep :: string
  line_width :: string
  rounded_corners :: string
  max_lines :: int

record ColorConfig =
  color_single :: string
  color_multi :: string
  color_adaptive :: string
  color_vl :: string
  color_dense :: string
  color_attention :: string
  color_hybrid :: string
  axis_color :: string
  conn_color :: string

record ArrowConfig =
  arrow_style :: string
  arrow_color :: string
  arrow_shorten :: string

record OutputConfig =
  input_file :: string
  output_file :: string
  show_legend :: bool
  caption :: string
  label :: string
  adjustbox_width :: string

subsection \<open>Category colours\<close>

definition DEFAULT_COLORS :: "string list" where
  "DEFAULT_COLORS =
     [''cyan!20'',
      ''green!20'',
      ''yellow!40'',
      ''purple!20'',
      ''orange!30'',
      ''red!20'',
      ''blue!20'',
      ''pink!20'',
      ''teal!20'',
      ''lime!30'',
      ''magenta!20'',
      ''brown!20'',
      ''violet!20'',
      ''olive!30'',
      ''navy!20'',
      ''maroon!20'',
      ''gray!30'',
      ''indigo!20'',
      ''gold!30'',
      ''coral!20'']"

definition legacy_mapping :: "ColorConfig \<Rightarrow> (string \<times> string) list" where
  "legacy_mapping c =
     [(''singleproto'', color_single c), (''multiproto'', color_multi c),
      (''adaptive'', color_adaptive c), (''vl'', color_vl c), (''dense'', color_dense c),
      (''attention'', color_attention c), (''hybrid'', color_hybrid c)]"

text \<open>The loop \<open>for i, category in enumerate(sorted(categories))\<close> of
  \<open>get_category_colors\<close>, writing into the dictionary \<open>color_map\<close>.\<close>

fun assign_colors ::
  "ColorConfig \<Rightarrow> (nat \<times> string) list \<Rightarrow> (string \<rightharpoonup> string) \<Rightarrow> (string \<rightharpoonup> string)" where
  "assign_colors c [] color_map = color_map"
| "assign_colors c ((i, category) # rest) color_map =
     assign_colors c rest
       (color_map(category \<mapsto>
          (case map_of (legacy_mapping c) category of
             Some col \<Rightarrow> col
           | None \<Rightarrow> DEFAULT_COLORS ! (i mod length DEFAULT_COLORS))))"

definition get_category_colors :: "ColorConfig \<Rightarrow> string list \<Rightarrow> (string \<rightharpoonup> string)" where
  "get_category_colors c categories = assign_colors c (enumerate 0 (sort categories)) Map.empty"

section \<open>LaTeX generator\<close>

text \<open>
  The generator object: its six configurations, its layout engine and the mutable field
  \<open>category_colors\<close> (the field \<open>output\<close> is named \<open>output_config\<close> here).
  Formatting a Python float into a string is not modelled: every
  function that prints a float takes the formatter \<open>fmt\<close> as a parameter.
\<close>

record generator =
  layout :: LayoutConfig
  time_logic :: TimeLogicConfig
  visual :: VisualConfig
  colors :: ColorConfig
  arrows :: ArrowConfig
  output_config :: OutputConfig
  layout_engine :: engine
  category_colors :: "string \<rightharpoonup> string"

definition init_generator ::
  "LayoutConfig \<Rightarrow> TimeLogicConfig \<Rightarrow> VisualConfig \<Rightarrow> ColorConfig \<Rightarrow> ArrowConfig \<Rightarrow> OutputConfig
     \<Rightarrow> generator" where
  "init_generator lc tc vc cc ac oc =
     \<lparr>layout = lc, time_logic = tc, visual = vc, colors = cc, arrows = ac, output_config = oc,
      layout_engine = init_engine lc tc, category_colors = Map.empty\<rparr>"

subsection \<open>Text helpers\<close>

definition bs :: char where
  "bs = CHR 0x5C"

definition nl :: char where
  "nl = CHR 0x0A"

text \<open>\<open>sep.join(parts)\<close>.\<close>

fun join :: "string \<Rightarrow> string list \<Rightarrow> string" where
  "join sep [] = []"
| "join sep [x] = x"
| "join sep (x # y # ys) = x @ sep @ join sep (y # ys)"

text \<open>\<open>str(n)\<close> for an integer.\<close>

fun str_nat :: "nat \<Rightarrow> string" where
  "str_nat n =
     (if n < 10 then [''0123456789'' ! n] else str_nat (n div 10) @ [''0123456789'' ! (n mod 10)])"

definition str_int :: "int \<Rightarrow> string" where
  "str_int i = (if i < 0 then ''-'' @ str_nat (nat (- i)) else str_nat (nat i))"

definition str_num :: "(real \<Rightarrow> string) \<Rightarrow> pynum \<Rightarrow> string" where
  "str_num fmt n = (case n of PyInt i \<Rightarrow> str_int i | PyFloat r \<Rightarrow> fmt r)"

text \<open>Raising and propagating exceptions: sequencing, a loop that stops at the first
  exception, and a dictionary lookup that raises KeyError.\<close>

definition bind_err :: "py_error + 'a \<Rightarrow> ('a \<Rightarrow> py_error + 'b) \<Rightarrow> py_error + 'b" where
  "bind_err x f = (case x of Inl err \<Rightarrow> Inl err | Inr v \<Rightarrow> f v)"

fun map_err :: "('a \<Rightarrow> py_error + 'b) \<Rightarrow> 'a list \<Rightarrow> py_error + 'b list" where
  "map_err f [] = Inr []"
| "map_err f (x # xs) =
     bind_err (f x) (\<lambda>v. bind_err (map_err f xs) (\<lambda>vs. Inr (v # vs)))"

definition lookup :: "('k \<rightharpoonup> 'v) \<Rightarrow> 'k \<Rightarrow> py_error + 'v" where
  "lookup m k = (case m k of None \<Rightarrow> Inl KeyError | Some v \<Rightarrow> Inr v)"

text \<open>\<open>color.split("!")[0] if "!" in color else color\<close>.\<close>

definition base_color_of :: "string \<Rightarrow> string" where
  "base_color_of color =
     (if CHR ''!'' \<in> set color then hd (py_split (CHR ''!'') color) else color)"

subsection \<open>Sections of the document\<close>

definition generate_preamble :: "generator \<Rightarrow> string" where
  "generate_preamble g =
     join [nl]
       ([''% Required packages/settings (add these in LaTeX preamble):'',
        ''% '' @ [bs] @ ''usepackage{tikz}'',
        ''% '' @ [bs] @ ''usepackage{xcolor}'',
        ''% '' @ [bs] @ ''usepackage{adjustbox} % provide smart scaling'',
        ''% '' @ [bs] @ ''usepackage{geometry}'',
        ''% '' @ [bs] @ ''geometry{a4paper, left=2.5cm, right=2.5cm,'',
        ''%   top=2.5cm, bottom=2.5cm}'',
        ''% '' @ [bs] @ ''usetikzlibrary{positioning, matrix, fit,'',
        ''%   backgrounds, shapes, arrows.meta}'',
        [],
        [bs] @ ''begin{figure}[htbp]'',
        [bs] @ ''centering''] @
        [[bs] @ ''begin{adjustbox}{center, '' @
         ''max width='' @ adjustbox_width (output_config g) @ '', '' @
         ''max height=0.8'' @ [bs] @ ''textheight, keepaspectratio}''] @
        [[bs] @ ''pgfdeclarelayer{background}'',
        [bs] @ ''pgfdeclarelayer{foreground}'',
        [bs] @ ''pgfsetlayers{background,main,foreground}'',
        [bs] @ ''begin{tikzpicture}['',
        ''    scale=1.0,'',
        ''    transform shape,'',
        ''    font='' @ [bs] @ ''footnotesize'' @ [bs] @ ''sffamily,''])"

definition style_def :: "generator \<Rightarrow> string \<Rightarrow> string \<Rightarrow> string" where
  "style_def g cat color =
     (let border_color = base_color_of color @ ''!60!black''
      in ''    '' @ cat @ ''/.style={'' @ [nl] @
         ''        fill='' @ color @ '', draw='' @ border_color @ '', '' @
         ''line width='' @ line_width (visual g) @ '','' @ [nl] @
         ''        rounded corners='' @ rounded_corners (visual g) @ '', '' @
         ''minimum width='' @ node_width (visual g) @ '', '' @
         ''minimum height='' @ node_height (visual g) @ '','' @ [nl] @
         ''        align=center, font='' @ node_font (visual g) @ '', '' @
         ''text=black!80, inner sep='' @ inner_sep (visual g) @ [nl] @
         ''    },'')"

definition additional_styles :: "generator \<Rightarrow> string list" where
  "additional_styles g =
     [''    year/.style={'',
      ''        circle, fill=white, draw=black,'',
      ''        line width=1.2pt,'',
      ''        minimum size=0.75cm, font='' @ [bs] @ ''bfseries'' @ [bs] @ ''footnotesize, inner sep=0pt'',
      ''    },'',
      ''    axis/.style={'',
      ''        line width=1.5pt, draw='' @ axis_color (colors g),
      ''    },'',
      ''    arrow/.style={'',
      ''        '' @ arrow_style (arrows g) @ '','',
      ''        line width=0.8pt,'',
      ''        draw='' @ arrow_color (arrows g) @ '','',
      ''        shorten >='' @ arrow_shorten (arrows g) @ '','',
      ''        shorten <='' @ arrow_shorten (arrows g),
      ''    },'',
      ''    spine/.style={'',
      ''        line width=0.8pt, draw=gray!50, -'',
      ''    },'',
      ''    conn/.style={'',
      ''        line width=0.5pt, draw='' @ conn_color (colors g),
      ''    },'',
      ''    methodmatrix/.style={'',
      ''        matrix of nodes, row sep=4pt, column sep=3pt,'',
      ''        nodes in empty cells, inner sep=0pt'',
      ''    }'',
      '']'']"

text \<open>\<open>_generate_styles\<close> stores the colour mapping in the generator and returns the
  style table.\<close>

definition generate_styles :: "generator \<Rightarrow> string list \<Rightarrow> (py_error + string) \<times> generator" where
  "generate_styles g categories =
     (let g' = g\<lparr>category_colors := get_category_colors (colors g) categories\<rparr>
      in (bind_err
            (map_err (\<lambda>cat. bind_err (lookup (category_colors g') cat)
                               (\<lambda>color. Inr (style_def g' cat color)))
               (sort categories))
            (\<lambda>defs. Inr (join [nl]
               ([''    % ========================================'',
                 ''    % Category color definitions'',
                 ''    % ========================================''] @ defs @ additional_styles g'))),
          g'))"

definition format_method_text :: "generator \<Rightarrow> string \<Rightarrow> string \<Rightarrow> string" where
  "format_method_text g name ref =
     (let ref_cmd = ''{'' @ ref_font (visual g) @ [bs] @ ''cite{'' @ ref @ ''}}''
      in if max_lines (visual g) = 1 then name @ ''~'' @ ref_cmd
         else name @ [bs, bs] @ ''[-2pt]'' @ ref_cmd)"

definition generate_timeline_axis ::
  "(real \<Rightarrow> string) \<Rightarrow> generator \<Rightarrow> layout_params \<Rightarrow> py_error + string" where
  "generate_timeline_axis fmt g lp =
     (let ys = years lp;
          head = [''    % ========================================'',
                  ''    % 1. Draw timeline axis and define year coordinates'',
                  ''    % ========================================'',
                  ''    '' @ [bs] @ ''draw[axis] (0,0) -- ('' @ str_num fmt (total_width lp) @ '',0);'',
                  [],
                  ''    % Define year positions'']
      in bind_err
           (map_err (\<lambda>yr. bind_err (lookup (positions lp) yr)
                (\<lambda>pos. Inr (''    '' @ [bs] @ ''coordinate (Y'' @ str_int yr @ '') at ('' @
                              fmt pos @ '',0);'')))
              ys)
           (\<lambda>coords.
              Inr (join [nl]
                (head @ coords @
                 (if length ys > 1 then
                    [[], ''    % Draw arrows between year nodes'',
                     ''    '' @ [bs] @ ''foreach '' @ [bs] @ ''year/'' @ [bs] @ ''nextyear in {'' @
                       join '','' (map (\<lambda>i. str_int (ys ! i) @ ''/'' @ str_int (ys ! (i + 1)))
                                     [0 ..< length ys - 1]) @ ''} {'',
                     ''        '' @ [bs] @ ''draw[arrow] (Y'' @ [bs] @ ''year) -- (Y'' @ [bs] @
                       ''nextyear);'',
                     ''    }'']
                  else [])))))"

subsection \<open>Method nodes\<close>

text \<open>
  Every line that \<open>_generate_method_nodes\<close> appends for a year is one emission: the blank
  line, the comment naming the year and its side, a single styled node, the opening line of
  a matrix container, a styled cell of a matrix (followed by \<open>&\<close> when the next cell shares
  its row, by a row end otherwise), and the closing line of the container.
\<close>

datatype emission =
    Blank
  | YearComment int string
  | SingleNode string string string int string
  | MatrixOpen string string int string
  | Cell string string bool
  | MatrixClose

fun render :: "emission \<Rightarrow> string" where
  "render Blank = []"
| "render (YearComment yr side_mark) =
     ''    % --- '' @ str_int yr @ '' ('' @ side_mark @ '') ---''"
| "render (SingleNode style anchor branch yr text) =
     ''    '' @ [bs] @ ''node['' @ style @ '', '' @ anchor @ ''='' @ branch @ ''cm '' @
     ''of Y'' @ str_int yr @ ''] (M'' @ str_int yr @ '') {'' @ text @ ''};''"
| "render (MatrixOpen position branch yr anchor) =
     ''    '' @ [bs] @ ''matrix[methodmatrix, '' @
     position @ ''='' @ branch @ ''cm of Y'' @ str_int yr @ '', '' @
     ''anchor='' @ anchor @ ''] (M'' @ str_int yr @ '') {''"
| "render (Cell style text continues) =
     ''        '' @ [bs] @ ''node['' @ style @ ''] {'' @ text @ ''}; '' @
     (if continues then ''&'' else [bs, bs])"
| "render MatrixClose = ''    };''"

text \<open>The loop over \<open>enumerate(group.iterrows())\<close> that fills a matrix.\<close>

definition matrix_cells :: "generator \<Rightarrow> row list \<Rightarrow> nat \<times> row \<Rightarrow> emission list" where
  "matrix_cells g grp = (\<lambda>(idx, row).
     (let text = format_method_text g (r_name row) (r_ref row);
          style = r_category row;
          multi_col = (length grp > 3 \<and> idx mod 2 = 0 \<and> idx < length grp - 1)
      in if multi_col then
           (let next_row = grp ! (idx + 1);
                next_text = format_method_text g (r_name next_row) (r_ref next_row);
                next_style = r_category next_row
            in [Cell style text True, Cell next_style next_text False])
         else if \<not> (length grp > 3 \<and> idx mod 2 = 1) then [Cell style text False]
         else []))"

definition matrix_rows :: "generator \<Rightarrow> row list \<Rightarrow> emission list" where
  "matrix_rows g grp = concat (map (matrix_cells g grp) (enumerate 0 grp))"

text \<open>The body of the loop over the years: the emissions of one year.\<close>

definition year_block ::
  "(real \<Rightarrow> string) \<Rightarrow> generator \<Rightarrow> layout_params \<Rightarrow> dataframe \<Rightarrow> int
     \<Rightarrow> py_error + emission list" where
  "year_block fmt g lp df yr =
     (let grp = filter (\<lambda>r. r_year r = yr) df
      in if grp = [] then Inr []
         else bind_err (fst (determine_side (layout_engine g) yr)) (\<lambda>side.
           let side_mark = (if side = ''above'' then ''upper'' else ''lower'');
               head = [Blank, YearComment yr side_mark]
           in if length grp = 1 then
                (let row = grp ! 0;
                     text = format_method_text g (r_name row) (r_ref row);
                     style = r_category row;
                     anchor = (if side = ''above'' then ''above'' else ''below'');
                     branch_dist = adjusted_branch lp
                 in Inr (head @ [SingleNode style anchor (fmt branch_dist) yr text]))
              else
                (let anchor = (if side = ''above'' then ''south'' else ''north'');
                     position = (if side = ''above'' then ''above'' else ''below'');
                     branch_dist = adjusted_branch lp
                 in Inr (head @ [MatrixOpen position (fmt branch_dist) yr anchor] @
                         matrix_rows g grp @ [MatrixClose]))))"

definition method_node_emissions ::
  "(real \<Rightarrow> string) \<Rightarrow> generator \<Rightarrow> layout_params \<Rightarrow> dataframe \<Rightarrow> py_error + emission list" where
  "method_node_emissions fmt g lp df =
     bind_err (map_err (year_block fmt g lp df) (sort (unique (map r_year df))))
       (\<lambda>blocks. Inr (concat blocks))"

definition generate_method_nodes ::
  "(real \<Rightarrow> string) \<Rightarrow> generator \<Rightarrow> dataframe \<Rightarrow> layout_params \<Rightarrow> py_error + string" where
  "generate_method_nodes fmt g df lp =
     bind_err (method_node_emissions fmt g lp df)
       (\<lambda>es. Inr (join [nl]
          ([[],
            ''    % ========================================'',
            ''    % 2. Define all method nodes'',
            ''    % ========================================''] @ map render es)))"

subsection \<open>Connectors, year markers, bounding box, caption\<close>

definition generate_background_layer ::
  "(real \<Rightarrow> string) \<Rightarrow> generator \<Rightarrow> dataframe \<Rightarrow> py_error + string" where
  "generate_background_layer fmt g df =
     (let ys = sort (unique (map r_year df));
          years_str = join '','' (map str_int ys);
          spine_len = spine_length (layout g)
      in bind_err
           (map_err (\<lambda>yr. bind_err (fst (determine_side (layout_engine g) yr))
                (\<lambda>side.
                   if side = ''above'' then
                     Inr (''        '' @ [bs] @ ''draw[conn] (M'' @ str_int yr @ ''.south) -- '' @
                          ''([yshift='' @ fmt spine_len @ ''cm]Y'' @ str_int yr @ '');'')
                   else
                     Inr (''        '' @ [bs] @ ''draw[conn] (M'' @ str_int yr @ ''.north) -- '' @
                          ''([yshift=-'' @ fmt spine_len @ ''cm]Y'' @ str_int yr @ '');'')))
              ys)
           (\<lambda>conns.
              Inr (join [nl]
                ([[],
                  ''    % ========================================'',
                  ''    % 3. Draw all connections in background layer'',
                  ''    % ========================================'',
                  ''    '' @ [bs] @ ''begin{pgfonlayer}{background}'',
                  ''        % Year node spines'',
                  ''        '' @ [bs] @ ''foreach '' @ [bs] @ ''year in {'' @ years_str @ ''} {'',
                  ''            '' @ [bs] @ ''draw[spine] (Y'' @ [bs] @ ''year.north) -- '' @
                    ''++(0,'' @ fmt (spine_length (layout g)) @ '');'',
                  ''            '' @ [bs] @ ''draw[spine] (Y'' @ [bs] @ ''year.south) -- '' @
                    ''++(0,-'' @ fmt (spine_length (layout g)) @ '');'',
                  ''        }'',
                  [],
                  ''        % Connect methods to year nodes''] @
                 conns @
                 [''    '' @ [bs] @ ''end{pgfonlayer}'']))))"

definition generate_year_nodes :: "generator \<Rightarrow> dataframe \<Rightarrow> string" where
  "generate_year_nodes g df =
     (let ys = sort (unique (map r_year df));
          years_str = join '','' (map str_int ys)
      in join [nl]
           [[],
            ''    % ========================================'',
            ''    % 4. Draw year nodes on top layer'',
            ''    % ========================================'',
            ''    '' @ [bs] @ ''foreach '' @ [bs] @ ''year in {'' @ years_str @ ''} {'',
            ''        '' @ [bs] @ ''node[year] at (Y'' @ [bs] @ ''year) {'' @ [bs] @ ''year};'',
            ''    }''])"

definition generate_bounding_box :: "generator \<Rightarrow> string" where
  "generate_bounding_box g =
     [nl] @ ''    % ========================================'' @ [nl] @ ''    % 5. Extend bounding box'' @ [nl] @ ''    % ========================================'' @ [nl] @
     ''    '' @ [bs] @ ''path (current bounding box.south west) +(-0.3,-0.5) '' @
     ''(current bounding box.north east) +(0.3,0.5);''"

definition legend_part :: "string \<Rightarrow> string \<Rightarrow> string" where
  "legend_part category fill_color =
     (let border_color = base_color_of fill_color @ ''!60!black''
      in ''{'' @ [bs] @ ''protect'' @ [bs] @ ''tikz[baseline=-0.5ex]'' @
         [bs] @ ''protect'' @ [bs] @ ''node['' @
         ''fill='' @ fill_color @ '','' @
         ''draw='' @ border_color @ '','' @
         ''rounded corners=2pt,'' @
         ''inner sep=2pt,'' @
         ''font='' @ [bs] @ ''tiny'' @
         ''] {'' @ category @ ''};}'')"

definition generate_caption :: "generator \<Rightarrow> string list \<Rightarrow> py_error + string" where
  "generate_caption g categories =
     (let head = [[bs] @ ''end{tikzpicture}'',
                  [bs] @ ''end{adjustbox}'',
                  [bs] @ ''caption{'' @ caption (output_config g) @ [CHR 0xE3, CHR 0x80, CHR 0x82]];
          tail = [''}}'',
                  [bs] @ ''label{'' @ label (output_config g) @ ''}'',
                  [bs] @ ''end{figure}'']
      in if show_legend (output_config g) then
           bind_err
             (map_err (\<lambda>category. bind_err (lookup (category_colors g) category)
                  (\<lambda>fill_color. Inr (legend_part category fill_color @ '' '')))
                (sort categories))
             (\<lambda>legend_parts.
                Inr (join [nl]
                  (head @ [[CHR 0xE9, CHR 0xA2, CHR 0x9C, CHR 0xE8, CHR 0x89, CHR 0xB2, CHR 0xE6, CHR 0xA0, CHR 0x87, CHR 0xE8, CHR 0xAF, CHR 0x86, CHR 0xEF, CHR 0xBC, CHR 0x9A] @ concat legend_parts] @ tail)))
         else Inr (join [nl] (head @ tail)))"

subsection \<open>The whole document\<close>

text \<open>
  \<open>generate\<close> returns the document, or the exception that escapes, together with the
  generator as the call leaves it: \<open>calculate_layout\<close> has replaced the year order of the
  engine and \<open>_generate_styles\<close> has replaced \<open>category_colors\<close>. Log messages are not
  part of the result.
\<close>

definition generate ::
  "(real \<Rightarrow> string) \<Rightarrow> generator \<Rightarrow> dataframe \<Rightarrow> (py_error + string) \<times> generator" where
  "generate fmt g df =
     (let categories = unique (map r_category df);
          (layout_params, e') = calculate_layout (layout_engine g) df;
          g1 = g\<lparr>layout_engine := e'\<rparr>;
          p1 = generate_preamble g1;
          (r2, g2) = generate_styles g1 categories
      in (bind_err r2 (\<lambda>p2.
          bind_err (generate_timeline_axis fmt g2 layout_params) (\<lambda>p3.
          bind_err (generate_method_nodes fmt g2 df layout_params) (\<lambda>p4.
          bind_err (generate_background_layer fmt g2 df) (\<lambda>p5.
          let p6 = generate_year_nodes g2 df;
              p7 = generate_bounding_box g2
          in bind_err (generate_caption g2 categories) (\<lambda>p8.
          Inr (join [nl] [p1, p2, p3, p4, p5, p6, p7, p8])))))),
          g2))"

abbreviation layout_of :: "engine \<Rightarrow> dataframe \<Rightarrow> layout_params" where
  "layout_of e df \<equiv> fst (calculate_layout e df)"

section \<open>Sample inputs\<close>

text \<open>The default configuration values of the dataclasses, and small datasets used to
  evaluate the model on concrete inputs.\<close>

definition mk_row :: "int \<Rightarrow> string \<Rightarrow> string \<Rightarrow> string \<Rightarrow> row" where
  "mk_row y c n r = \<lparr>r_year = y, r_category = c, r_name = n, r_ref = r\<rparr>"

definition default_layout :: LayoutConfig where
  "default_layout = \<lparr>timeline_width = ''16cm'', year_spacing = 2.7, branch_distance = 1.2,
     spine_length = 0.4, smart_spacing = False, min_year_spacing = 2.0\<rparr>"

definition default_time_logic :: TimeLogicConfig where
  "default_time_logic = \<lparr>time_direction = ''right'', start_year = 2019, end_year = 2025,
     upper_years = Some ''order'', lower_years = ''even''\<rparr>"

definition sample_df :: dataframe where
  "sample_df = [mk_row 2020 ''a'' ''M1'' ''R1'', mk_row 2021 ''b'' ''M2'' ''R2'',
                mk_row 2025 ''a'' ''M3'' ''R3'', mk_row 2021 ''a'' ''M4'' ''R4'']"

definition wide_engine :: engine where
  "wide_engine = init_engine (default_layout\<lparr>smart_spacing := True, year_spacing := 6\<rparr>)
                   default_time_logic"

definition plain_engine :: engine where
  "plain_engine = init_engine default_layout default_time_logic"

definition rule_engine :: "string option \<Rightarrow> int list \<Rightarrow> engine" where
  "rule_engine r yo =
     (init_engine default_layout (default_time_logic\<lparr>upper_years := r\<rparr>))\<lparr>year_order := yo\<rparr>"

definition default_visual :: VisualConfig where
  "default_visual = \<lparr>node_width = ''2.6cm'', node_height = ''0.5cm'',
     node_font = [bs] @ ''tiny'' @ [bs] @ ''bfseries'', ref_font = [bs] @ ''tiny'',
     inner_sep = ''1.5pt'', line_width = ''0.8pt'', rounded_corners = ''3pt'', max_lines = 1\<rparr>"

definition default_colors :: ColorConfig where
  "default_colors = \<lparr>color_single = ''cyan!20'', color_multi = ''green!20'',
     color_adaptive = ''yellow!40'', color_vl = ''purple!20'', color_dense = ''orange!30'',
     color_attention = ''red!20'', color_hybrid = ''gray!30'', axis_color = ''black!70'',
     conn_color = ''gray!60''\<rparr>"

definition default_arrows :: ArrowConfig where
  "default_arrows = \<lparr>arrow_style = ''-{Stealth[length=3mm, width=2mm]}'',
     arrow_color = ''gray!70'', arrow_shorten = ''0.38cm''\<rparr>"

definition default_output :: OutputConfig where
  "default_output = \<lparr>input_file = [], output_file = ''timeline.tex'', show_legend = True,
     caption = [CHR 0xE6, CHR 0x97, CHR 0xB6, CHR 0xE9, CHR 0x97, CHR 0xB4, CHR 0xE7, CHR 0xBA, CHR 0xBF, CHR 0xE9, CHR 0xB1, CHR 0xBC, CHR 0xE9, CHR 0xAA, CHR 0xA8, CHR 0xE5, CHR 0x9B, CHR 0xBE],
     label = ''fig:timeline'', adjustbox_width = ''0.8'' @ [bs] @ ''textwidth''\<rparr>"

definition default_generator :: generator where
  "default_generator =
     init_generator default_layout default_time_logic default_visual default_colors
       default_arrows default_output"

text \<open>A formatter with one decimal digit, for evaluating the model on the samples.\<close>

definition sample_fmt :: "real \<Rightarrow> string" where
  "sample_fmt r = str_int \<lfloor>r\<rfloor> @ ''.'' @ str_int (\<lfloor>r * 10\<rfloor> mod 10)"

definition dense_df :: dataframe where
  "dense_df = [mk_row 2022 ''vl'' ''M1'' ''R1'', mk_row 2020 ''zeta'' ''M2'' ''R2'',
               mk_row 2022 ''dense'' ''M3'' ''R3'', mk_row 2022 ''alpha'' ''M4'' ''R4'',
               mk_row 2021 ''vl'' ''M5'' ''R5'', mk_row 2022 ''vl'' ''M6'' ''R6'',
               mk_row 2021 ''alpha'' ''M7'' ''R7'', mk_row 2022 ''zeta'' ''M8'' ''R8'']"

definition inverted_engine :: engine where
  "inverted_engine =
     init_engine (default_layout\<lparr>smart_spacing := True, year_spacing := 2,
                                  min_year_spacing := 3\<rparr>) default_time_logic"

section \<open>Properties of the layout\<close>

lemma calculate_layout_spacing:
  "adjusted_spacing (fst (calculate_layout e df)) =
     (if smart_spacing (config e)
      then max (min_year_spacing (config e))
             (min (real (calc_max_nodes (groupby_size df)) * 2.5) (year_spacing (config e)))
      else year_spacing (config e))"
  by (simp add: calculate_layout_def Let_def)

lemma calculate_layout_branch:
  "adjusted_branch (fst (calculate_layout e df)) =
     (if smart_spacing (config e)
      then max (branch_distance (config e)) (real (calc_max_nodes (groupby_size df)) * 0.6)
      else branch_distance (config e))"
  by (simp add: calculate_layout_def Let_def)

lemma calculate_layout_max_nodes:
  "max_nodes (fst (calculate_layout e df)) = calc_max_nodes (groupby_size df)"
  by (simp add: calculate_layout_def Let_def split: prod.splits)

lemma set_unique_acc: "set (unique_acc seen xs) = set xs - set seen"
  by (induction xs arbitrary: seen) auto

lemma distinct_unique_acc: "distinct (unique_acc seen xs)"
  by (induction xs arbitrary: seen) (auto simp: set_unique_acc)

lemma set_unique: "set (unique xs) = set xs"
  by (simp add: unique_def set_unique_acc)

lemma distinct_unique: "distinct (unique xs)"
  by (simp add: unique_def distinct_unique_acc)

lemma fill_positions_other:
  "y \<notin> snd ` set xs \<Longrightarrow> fill_positions sp xs m y = m y"
  by (induction xs arbitrary: m) auto

lemma fill_positions_hit:
  "distinct (map snd xs) \<Longrightarrow> (i, y) \<in> set xs \<Longrightarrow>
     fill_positions sp xs m y = Some (real i * sp)"
proof (induction xs arbitrary: m)
  case Nil
  then show ?case by simp
next
  case (Cons p xs)
  obtain j z where p: "p = (j, z)" by (cases p)
  show ?case
  proof (cases "(i, y) = p")
    case True
    with Cons.prems p have "y \<notin> snd ` set xs" by auto
    with True p show ?thesis by (simp add: fill_positions_other)
  next
    case False
    with Cons p show ?thesis by auto
  qed
qed

lemma dom_fill_positions: "dom (fill_positions sp xs m) = dom m \<union> snd ` set xs"
proof (induction xs arbitrary: m)
  case Nil
  then show ?case by simp
next
  case (Cons p xs)
  obtain j z where p: "p = (j, z)" by (cases p)
  have "dom (fill_positions sp xs (m(z \<mapsto> 0 + real j * sp))) =
        dom (m(z \<mapsto> 0 + real j * sp)) \<union> snd ` set xs"
    by (rule Cons.IH)
  with p show ?case by auto
qed

lemma calculate_layout_years:
  "years (fst (calculate_layout e df)) = sort (unique (map r_year df))"
  by (simp add: calculate_layout_def Let_def split: prod.splits)

lemma calculate_layout_positions:
  "positions (fst (calculate_layout e df)) =
     fill_positions (adjusted_spacing (fst (calculate_layout e df)))
       (enumerate 0 (sort (unique (map r_year df)))) Map.empty"
  by (simp add: calculate_layout_def Let_def split: prod.splits)

lemma calculate_layout_total_width:
  "total_width (fst (calculate_layout e df)) =
     (if length (sort (unique (map r_year df))) > 1
      then PyFloat (real (length (sort (unique (map r_year df))) - 1)
                    * adjusted_spacing (fst (calculate_layout e df)))
      else PyInt 0)"
  by (simp add: calculate_layout_def Let_def split: prod.splits)

lemma position_at_index:
  assumes "i < length (years (fst (calculate_layout e df)))"
  shows "positions (fst (calculate_layout e df)) (years (fst (calculate_layout e df)) ! i)
         = Some (real i * adjusted_spacing (fst (calculate_layout e df)))"
proof -
  let ?ys = "sort (unique (map r_year df))"
  have d: "distinct (map snd (enumerate 0 ?ys))"
    by (simp add: distinct_unique)
  from assms have i: "i < length ?ys" by (simp add: calculate_layout_years)
  then have "(i, ?ys ! i) \<in> set (enumerate 0 ?ys)"
    by (simp add: in_set_enumerate_eq)
  from fill_positions_hit [OF d this] show ?thesis
    by (simp add: calculate_layout_positions calculate_layout_years)
qed

lemma calc_max_nodes_Max:
  "yc \<noteq> [] \<Longrightarrow> calc_max_nodes yc = Max (snd ` set yc)"
  by (cases yc) (simp_all add: calc_max_nodes_def Max.set_eq_fold [symmetric])

lemma max_nodes_Max:
  assumes "df \<noteq> []"
  shows "calc_max_nodes (groupby_size df) =
         Max ((\<lambda>y. length (filter (\<lambda>r. r_year r = y) df)) ` r_year ` set df)"
proof -
  from assms have "unique (map r_year df) \<noteq> []"
    by (metis set_unique set_empty map_is_Nil_conv)
  then have "sort (unique (map r_year df)) \<noteq> []"
    by (metis length_sort length_0_conv)
  then have ne: "groupby_size df \<noteq> []" by (simp add: groupby_size_def)
  have "snd ` set (groupby_size df) =
        (\<lambda>y. length (filter (\<lambda>r. r_year r = y) df)) ` r_year ` set df"
    by (simp add: groupby_size_def set_unique image_image)
  with calc_max_nodes_Max [OF ne] show ?thesis by simp
qed

lemmas sample_defs = sample_df_def mk_row_def wide_engine_def plain_engine_def init_engine_def
  default_layout_def default_time_logic_def inverted_engine_def

lemma sample_years: "sort (unique (map r_year sample_df)) = [2020, 2021, 2025]"
  by (simp add: sample_defs unique_def)

lemma sample_groupby: "groupby_size sample_df = [(2020, 1), (2021, 2), (2025, 1)]"
  by (simp add: groupby_size_def sample_years) (simp add: sample_defs)

lemma sample_max_nodes: "calc_max_nodes (groupby_size sample_df) = 2"
  by (simp add: sample_groupby calc_max_nodes_def)

lemma sample_ne: "sample_df \<noteq> []"
  by (simp add: sample_df_def)

text \<open>
  Claim C2. For a non-empty dataset, \<open>max_nodes\<close> is the largest number of records sharing
  a year; with smart spacing enabled the adjusted spacing is
  \<open>max(min_year_spacing, min(max_nodes * 2.5, year_spacing))\<close>, and with smart spacing
  disabled it is exactly \<open>year_spacing\<close>.
\<close>

theorem adjusted_spacing_clamp:
  "df \<noteq> [] \<Longrightarrow>
   max_nodes (layout_of e df) =
     Max ((\<lambda>y. length (filter (\<lambda>r. r_year r = y) df)) ` r_year ` set df) \<and>
   (smart_spacing (config e) \<longrightarrow>
      adjusted_spacing (layout_of e df) =
        max (min_year_spacing (config e))
            (min (real (max_nodes (layout_of e df)) * 2.5) (year_spacing (config e)))) \<and>
   (\<not> smart_spacing (config e) \<longrightarrow>
      adjusted_spacing (layout_of e df) = year_spacing (config e))"
  by (simp add: calculate_layout_spacing calculate_layout_max_nodes max_nodes_Max)

theorem adjusted_spacing_clamp_witness:
  "sample_df \<noteq> [] \<and> smart_spacing (config wide_engine) \<and>
   \<not> smart_spacing (config plain_engine) \<and>
   max_nodes (layout_of wide_engine sample_df) = 2 \<and>
   adjusted_spacing (layout_of wide_engine sample_df) = 5 \<and>
   adjusted_spacing (layout_of plain_engine sample_df) = 2.7"
proof -
  have m: "max_nodes (layout_of wide_engine sample_df) = 2"
    by (simp add: calculate_layout_max_nodes sample_max_nodes)
  have s: "smart_spacing (config wide_engine)" "\<not> smart_spacing (config plain_engine)"
    by (simp_all add: sample_defs)
  have c: "min_year_spacing (config wide_engine) = 2" "year_spacing (config wide_engine) = 6"
     "year_spacing (config plain_engine) = 2.7"
    by (simp_all add: sample_defs)
  from adjusted_spacing_clamp [OF sample_ne, of wide_engine]
       adjusted_spacing_clamp [OF sample_ne, of plain_engine] sample_ne m s c
  show ?thesis by simp
qed

text \<open>
  Claim C3, as stated, asks for \<open>adjusted_spacing \<le> year_spacing\<close> under smart spacing for
  every configuration. A configuration whose minimum spacing exceeds its base spacing
  (\<open>min_year_spacing = 3\<close>, \<open>year_spacing = 2\<close>) gives \<open>adjusted_spacing = 3\<close>.
\<close>

theorem spacing_bounds_counterexample:
  "smart_spacing (config inverted_engine) \<and>
   adjusted_spacing (layout_of inverted_engine sample_df) = 3 \<and>
   year_spacing (config inverted_engine) = 2 \<and>
   \<not> (adjusted_spacing (layout_of inverted_engine sample_df)
        \<le> year_spacing (config inverted_engine))"
proof -
  have c: "smart_spacing (config inverted_engine)"
    "min_year_spacing (config inverted_engine) = 3" "year_spacing (config inverted_engine) = 2"
    by (simp_all add: sample_defs)
  show ?thesis
    by (simp add: calculate_layout_spacing sample_max_nodes c)
qed

text \<open>
  Claim C3, amended. With smart spacing enabled the adjusted spacing is at least
  \<open>min_year_spacing\<close> for every input, and at most \<open>year_spacing\<close> whenever the
  configuration has \<open>min_year_spacing \<le> year_spacing\<close>; with smart spacing disabled it
  equals \<open>year_spacing\<close> exactly.
\<close>

theorem spacing_bounds:
  "(smart_spacing (config e) \<longrightarrow>
      min_year_spacing (config e) \<le> adjusted_spacing (layout_of e df) \<and>
      (min_year_spacing (config e) \<le> year_spacing (config e) \<longrightarrow>
         adjusted_spacing (layout_of e df) \<le> year_spacing (config e))) \<and>
   (\<not> smart_spacing (config e) \<longrightarrow>
      adjusted_spacing (layout_of e df) = year_spacing (config e))"
  by (simp add: calculate_layout_spacing)

theorem spacing_bounds_witness:
  "smart_spacing (config wide_engine) \<and>
   min_year_spacing (config wide_engine) \<le> year_spacing (config wide_engine) \<and>
   \<not> smart_spacing (config plain_engine) \<and>
   2 \<le> adjusted_spacing (layout_of wide_engine sample_df) \<and>
   adjusted_spacing (layout_of wide_engine sample_df) \<le> 6 \<and>
   adjusted_spacing (layout_of plain_engine sample_df) = 2.7"
proof -
  have s: "smart_spacing (config wide_engine)" "\<not> smart_spacing (config plain_engine)"
    by (simp_all add: sample_defs)
  have c: "min_year_spacing (config wide_engine) = 2" "year_spacing (config wide_engine) = 6"
     "year_spacing (config plain_engine) = 2.7"
    by (simp_all add: sample_defs)
  from spacing_bounds [of wide_engine sample_df] spacing_bounds [of plain_engine sample_df] s c
  show ?thesis by simp
qed

text \<open>
  Claim C9. For a non-empty dataset the adjusted branch distance is at least the configured
  \<open>branch_distance\<close>; with smart spacing enabled it is the maximum of \<open>branch_distance\<close>
  and \<open>max_nodes * 0.6\<close>, hence also at least \<open>max_nodes * 0.6\<close>; with smart spacing
  disabled it is \<open>branch_distance\<close>.
\<close>

theorem branch_growth:
  "df \<noteq> [] \<Longrightarrow>
   branch_distance (config e) \<le> adjusted_branch (layout_of e df) \<and>
   (smart_spacing (config e) \<longrightarrow>
      real (max_nodes (layout_of e df)) * 0.6 \<le> adjusted_branch (layout_of e df) \<and>
      adjusted_branch (layout_of e df) =
        max (branch_distance (config e)) (real (max_nodes (layout_of e df)) * 0.6)) \<and>
   (\<not> smart_spacing (config e) \<longrightarrow>
      adjusted_branch (layout_of e df) = branch_distance (config e))"
  by (simp add: calculate_layout_branch calculate_layout_max_nodes)

theorem branch_growth_witness:
  "sample_df \<noteq> [] \<and> smart_spacing (config wide_engine) \<and>
   \<not> smart_spacing (config plain_engine) \<and>
   max_nodes (layout_of wide_engine sample_df) = 2 \<and>
   branch_distance (config wide_engine) = 1.2 \<and>
   adjusted_branch (layout_of wide_engine sample_df) = 1.2 \<and>
   adjusted_branch (layout_of plain_engine sample_df) = 1.2"
proof -
  have m: "max_nodes (layout_of wide_engine sample_df) = 2"
    by (simp add: calculate_layout_max_nodes sample_max_nodes)
  have s: "smart_spacing (config wide_engine)" "\<not> smart_spacing (config plain_engine)"
    by (simp_all add: sample_defs)
  have c: "branch_distance (config wide_engine) = 1.2"
     "branch_distance (config plain_engine) = 1.2"
    by (simp_all add: sample_defs)
  from branch_growth [OF sample_ne, of wide_engine]
       branch_growth [OF sample_ne, of plain_engine] sample_ne m s c
  show ?thesis by simp
qed

text \<open>
  Claim C4. For a non-empty dataset the years of the layout are the distinct years sorted
  ascending, the position of the \<open>i\<close>-th year is \<open>i * adjusted_spacing\<close> whatever the
  numeric gaps between years (strictly increasing when the spacing is positive), and the
  total width is \<open>(n - 1) * adjusted_spacing\<close> for \<open>n > 1\<close> years and the integer 0
  otherwise.
\<close>

theorem positions_uniform:
  "df \<noteq> [] \<Longrightarrow>
   years (layout_of e df) = sort (unique (map r_year df)) \<and>
   sorted (years (layout_of e df)) \<and> distinct (years (layout_of e df)) \<and>
   set (years (layout_of e df)) = r_year ` set df \<and>
   dom (positions (layout_of e df)) = set (years (layout_of e df)) \<and>
   (\<forall>i < length (years (layout_of e df)).
      positions (layout_of e df) (years (layout_of e df) ! i)
        = Some (real i * adjusted_spacing (layout_of e df))) \<and>
   (0 < adjusted_spacing (layout_of e df) \<longrightarrow>
      (\<forall>i j. i < j \<and> j < length (years (layout_of e df)) \<longrightarrow>
         the (positions (layout_of e df) (years (layout_of e df) ! i))
           < the (positions (layout_of e df) (years (layout_of e df) ! j)))) \<and>
   total_width (layout_of e df) =
     (if length (years (layout_of e df)) > 1
      then PyFloat (real (length (years (layout_of e df)) - 1)
                     * adjusted_spacing (layout_of e df))
      else PyInt 0)"
proof -
  let ?lp = "layout_of e df"
  have ys: "years ?lp = sort (unique (map r_year df))"
    by (rule calculate_layout_years)
  have pos: "\<forall>i < length (years ?lp).
      positions ?lp (years ?lp ! i) = Some (real i * adjusted_spacing ?lp)"
    by (simp add: position_at_index)
  have mono: "0 < adjusted_spacing ?lp \<longrightarrow>
      (\<forall>i j. i < j \<and> j < length (years ?lp) \<longrightarrow>
         the (positions ?lp (years ?lp ! i)) < the (positions ?lp (years ?lp ! j)))"
  proof (intro impI allI)
    fix i j
    assume sp: "0 < adjusted_spacing ?lp" and ij: "i < j \<and> j < length (years ?lp)"
    then have "i < length (years ?lp)" by simp
    with pos ij have "the (positions ?lp (years ?lp ! i)) = real i * adjusted_spacing ?lp"
      "the (positions ?lp (years ?lp ! j)) = real j * adjusted_spacing ?lp"
      by simp_all
    with sp ij show "the (positions ?lp (years ?lp ! i)) < the (positions ?lp (years ?lp ! j))"
      by simp
  qed
  have dm: "dom (positions ?lp) = set (years ?lp)"
  proof -
    have "snd ` set (enumerate 0 (sort (unique (map r_year df))))
          = set (map snd (enumerate 0 (sort (unique (map r_year df)))))"
      by (simp only: set_map)
    also have "\<dots> = set (sort (unique (map r_year df)))"
      by (simp only: map_snd_enumerate)
    finally show ?thesis
      by (simp add: calculate_layout_positions dom_fill_positions ys del: set_sort)
  qed
  have tw: "total_width ?lp =
     (if length (years ?lp) > 1
      then PyFloat (real (length (years ?lp) - 1) * adjusted_spacing ?lp) else PyInt 0)"
    by (simp only: calculate_layout_total_width ys)
  have st: "set (years ?lp) = r_year ` set df"
    by (simp add: ys set_unique)
  have sd: "sorted (years ?lp)" "distinct (years ?lp)"
    by (simp_all add: ys distinct_unique)
  from ys sd st dm pos mono tw show ?thesis by blast
qed

lemma sample_positions_layout:
  "years (layout_of plain_engine sample_df) = [2020, 2021, 2025]"
  by (simp add: calculate_layout_years sample_years)

theorem positions_uniform_witness:
  "sample_df \<noteq> [] \<and>
   years (layout_of plain_engine sample_df) = [2020, 2021, 2025] \<and>
   (0::real) < 2.7 \<and>
   positions (layout_of plain_engine sample_df) 2020 = Some 0 \<and>
   positions (layout_of plain_engine sample_df) 2021 = Some 2.7 \<and>
   positions (layout_of plain_engine sample_df) 2025 = Some 5.4 \<and>
   total_width (layout_of plain_engine sample_df) = PyFloat 5.4"
proof -
  have sp: "adjusted_spacing (layout_of plain_engine sample_df) = 2.7"
    by (simp add: calculate_layout_spacing sample_defs)
  let ?lp = "layout_of plain_engine sample_df"
  note u = positions_uniform [OF sample_ne, of plain_engine]
  from u have p: "\<forall>i < length (years ?lp).
      positions ?lp (years ?lp ! i) = Some (real i * adjusted_spacing ?lp)"
    by blast
  from u have t: "total_width ?lp =
     (if length (years ?lp) > 1
      then PyFloat (real (length (years ?lp) - 1) * adjusted_spacing ?lp) else PyInt 0)"
    by blast
  from p [rule_format, of 0] have "positions ?lp 2020 = Some 0"
    by (simp add: sample_positions_layout sp)
  moreover from p [rule_format, of 1] have "positions ?lp 2021 = Some 2.7"
    by (simp add: sample_positions_layout sp)
  moreover from p [rule_format, of 2] have "positions ?lp 2025 = Some 5.4"
    by (simp add: sample_positions_layout sp)
  moreover from t have "total_width ?lp = PyFloat 5.4"
    by (simp add: sample_positions_layout sp)
  ultimately show ?thesis
    using sample_ne sample_positions_layout by simp
qed

section \<open>Properties of the side assignment\<close>

lemma py_index_Inr:
  "py_index ys x = Inr i \<longleftrightarrow> i < length ys \<and> ys ! i = x \<and> (\<forall>j<i. ys ! j \<noteq> x)"
proof (induction ys arbitrary: i)
  case Nil
  then show ?case by simp
next
  case (Cons y ys)
  show ?case
  proof (cases "y = x")
    case True
    then show ?thesis by (cases i) auto
  next
    case False
    show ?thesis
    proof (cases i)
      case 0
      with False show ?thesis by (simp split: sum.splits)
    next
      case (Suc k)
      have "(\<forall>j<Suc k. (y # ys) ! j \<noteq> x) \<longleftrightarrow> (\<forall>j<k. ys ! j \<noteq> x)"
        using False by (auto simp: less_Suc_eq_0_disj)
      with False Suc Cons.IH [of k] show ?thesis
        by (auto split: sum.splits)
    qed
  qed
qed

lemma py_index_Inl: "py_index ys x = Inl err \<longleftrightarrow> err = ValueError \<and> x \<notin> set ys"
  by (induction ys) (auto split: sum.splits)

lemma order_side_found:
  "i < length yo \<Longrightarrow> yo ! i = yr \<Longrightarrow> \<forall>j<i. yo ! j \<noteq> yr \<Longrightarrow>
   order_side yo yr = Inr (if even i then ''above'' else ''below'')"
proof -
  assume "i < length yo" "yo ! i = yr" "\<forall>j<i. yo ! j \<noteq> yr"
  then have "py_index yo yr = Inr i" by (simp add: py_index_Inr)
  then show ?thesis by (simp add: order_side_def even_iff_mod_2_eq_zero)
qed

lemma order_side_absent: "yr \<notin> set yo \<Longrightarrow> order_side yo yr = Inr ''above''"
proof -
  assume "yr \<notin> set yo"
  then have "py_index yo yr = Inl ValueError" by (simp add: py_index_Inl)
  then show ?thesis by (simp add: order_side_def)
qed

lemma order_side_Inr:
  "\<exists>s. order_side yo yr = Inr s \<and> (s = ''above'' \<or> s = ''below'')"
proof (cases "py_index yo yr")
  case (Inl err)
  then have "err = ValueError" by (simp add: py_index_Inl)
  with Inl show ?thesis by (simp add: order_side_def)
next
  case (Inr i)
  then show ?thesis by (simp add: order_side_def)
qed

lemma py_int_error: "py_int s = Inl err \<Longrightarrow> err = ValueError"
  by (simp add: py_int_def Let_def split: if_splits)

lemma parse_upper_list_Inl:
  "parse_upper_list ts = Inl err \<longleftrightarrow>
     err = ValueError \<and> (\<exists>t \<in> set ts. py_strip t \<noteq> [] \<and> py_int (py_strip t) = Inl ValueError)"
proof (induction ts)
  case Nil
  then show ?case by simp
next
  case (Cons t ts)
  show ?case
  proof (cases "py_strip t = []")
    case True
    with Cons show ?thesis by auto
  next
    case False
    show ?thesis
    proof (cases "py_int (py_strip t)")
      case (Inl e1)
      then have "e1 = ValueError" by (rule py_int_error)
      with Inl False show ?thesis by auto
    next
      case (Inr v)
      with False Cons show ?thesis by (auto split: sum.splits)
    qed
  qed
qed

lemma determine_side_unfold:
  "determine_side e yr =
     (if rule_of e \<in> set [''order'', ''sequence'', ''index'']
      then (order_side (order_of e yr) yr, [])
      else if rule_of e = ''odd'' then (Inr (if yr mod 2 = 1 then ''above'' else ''below''), [])
      else if rule_of e = ''even'' then (Inr (if yr mod 2 = 0 then ''above'' else ''below''), [])
      else (case parse_upper_list (py_split (CHR '','') (rule_of e)) of
              Inr upper_list \<Rightarrow> (Inr (if yr \<in> set upper_list then ''above'' else ''below''), [])
            | Inl err \<Rightarrow>
                if err = ValueError \<or> err = AttributeError
                then (order_side (order_of e yr) yr, [LogWarning (rule_of e)])
                else (Inl err, [])))"
  unfolding determine_side_def rule_of_def order_of_def Let_def by (rule refl)

lemma calculate_layout_engine:
  "year_order (snd (calculate_layout e df)) = sort (unique (map r_year df)) \<and>
   time_config (snd (calculate_layout e df)) = time_config e \<and>
   config (snd (calculate_layout e df)) = config e"
  by (simp add: calculate_layout_def Let_def split: prod.splits)

text \<open>
  Claim C5. \<open>determine_side\<close> follows the rule selected by the lower-cased
  \<open>upper_years\<close>: for order, sequence or index the side is above exactly when the first
  position of the year in the year order is even (position 0, hence above, when the year is
  absent), and after \<open>calculate_layout\<close> the year order is the sorted list of distinct
  years; for odd the side is above exactly for odd years; for even exactly for even years;
  for any other rule that parses as a comma-separated integer list, exactly for the years of
  that list.
\<close>

theorem determine_side_rules:
  "year_order (snd (calculate_layout e df)) = sort (unique (map r_year df)) \<and>
   rule_of (snd (calculate_layout e df)) = rule_of e \<and>
   (rule_of e \<in> {''order'', ''sequence'', ''index''} \<longrightarrow>
      (\<forall>i. i < length (order_of e yr) \<and> order_of e yr ! i = yr \<and>
            (\<forall>j<i. order_of e yr ! j \<noteq> yr) \<longrightarrow>
         fst (determine_side e yr) = Inr (if even i then ''above'' else ''below'')) \<and>
      (yr \<notin> set (order_of e yr) \<longrightarrow> fst (determine_side e yr) = Inr ''above'')) \<and>
   (rule_of e = ''odd'' \<longrightarrow>
      fst (determine_side e yr) = Inr (if odd yr then ''above'' else ''below'')) \<and>
   (rule_of e = ''even'' \<longrightarrow>
      fst (determine_side e yr) = Inr (if even yr then ''above'' else ''below'')) \<and>
   (rule_of e \<notin> {''order'', ''sequence'', ''index'', ''odd'', ''even''} \<longrightarrow>
      (\<forall>upper_list. parse_upper_list (py_split (CHR '','') (rule_of e)) = Inr upper_list \<longrightarrow>
         fst (determine_side e yr) = Inr (if yr \<in> set upper_list then ''above'' else ''below'')))"
proof -
  have a: "year_order (snd (calculate_layout e df)) = sort (unique (map r_year df))"
    "rule_of (snd (calculate_layout e df)) = rule_of e"
    by (simp_all add: calculate_layout_engine rule_of_def)
  have b: "rule_of e \<in> {''order'', ''sequence'', ''index''} \<longrightarrow>
      (\<forall>i. i < length (order_of e yr) \<and> order_of e yr ! i = yr \<and>
            (\<forall>j<i. order_of e yr ! j \<noteq> yr) \<longrightarrow>
         fst (determine_side e yr) = Inr (if even i then ''above'' else ''below'')) \<and>
      (yr \<notin> set (order_of e yr) \<longrightarrow> fst (determine_side e yr) = Inr ''above'')"
  proof
    assume r: "rule_of e \<in> {''order'', ''sequence'', ''index''}"
    then have d: "determine_side e yr = (order_side (order_of e yr) yr, [])"
      by (simp add: determine_side_unfold)
    show "(\<forall>i. i < length (order_of e yr) \<and> order_of e yr ! i = yr \<and>
            (\<forall>j<i. order_of e yr ! j \<noteq> yr) \<longrightarrow>
         fst (determine_side e yr) = Inr (if even i then ''above'' else ''below'')) \<and>
      (yr \<notin> set (order_of e yr) \<longrightarrow> fst (determine_side e yr) = Inr ''above'')"
      using order_side_found [of _ "order_of e yr" yr] order_side_absent [of yr "order_of e yr"]
      by (simp add: d)
  qed
  have c: "rule_of e = ''odd'' \<longrightarrow>
      fst (determine_side e yr) = Inr (if odd yr then ''above'' else ''below'')"
    by (simp add: determine_side_unfold odd_iff_mod_2_eq_one)
  have d: "rule_of e = ''even'' \<longrightarrow>
      fst (determine_side e yr) = Inr (if even yr then ''above'' else ''below'')"
    by (simp add: determine_side_unfold even_iff_mod_2_eq_zero)
  have f: "rule_of e \<notin> {''order'', ''sequence'', ''index'', ''odd'', ''even''} \<longrightarrow>
      (\<forall>upper_list. parse_upper_list (py_split (CHR '','') (rule_of e)) = Inr upper_list \<longrightarrow>
         fst (determine_side e yr) = Inr (if yr \<in> set upper_list then ''above'' else ''below''))"
    by (simp add: determine_side_unfold)
  from a b c d f show ?thesis by blast
qed

lemma rule_of_samples:
  "rule_of (rule_engine (Some ''odd'') []) = ''odd''"
  "rule_of (rule_engine (Some ''even'') []) = ''even''"
  "rule_of (rule_engine (Some ''ORDER'') [2020, 2021, 2022]) = ''order''"
  "rule_of (rule_engine (Some ''2020,2022'') []) = ''2020,2022''"
  "rule_of (rule_engine (Some ''20x0,2022'') [2020, 2021]) = ''20x0,2022''"
  "rule_of (rule_engine None [2020, 2021]) = []"
  "rule_of (rule_engine (Some []) [2020, 2021]) = []"
  by code_simp+

lemma order_of_samples:
  "order_of (rule_engine (Some ''ORDER'') [2020, 2021, 2022]) yr = [2020, 2021, 2022]"
  "order_of (rule_engine (Some ''20x0,2022'') [2020, 2021]) yr = [2020, 2021]"
  by (simp_all add: order_of_def rule_engine_def)

lemma parse_samples:
  "parse_upper_list (py_split (CHR '','') ''2020,2022'') = Inr [2020, 2022]"
  "parse_upper_list (py_split (CHR '','') ''20x0,2022'') = Inl ValueError"
  "parse_upper_list (py_split (CHR '','') []) = Inr []"
  by code_simp+

theorem determine_side_rules_witness:
  "fst (determine_side (rule_engine (Some ''odd'') []) 2021) = Inr ''above'' \<and>
   fst (determine_side (rule_engine (Some ''odd'') []) 2020) = Inr ''below'' \<and>
   fst (determine_side (rule_engine (Some ''even'') []) 2020) = Inr ''above'' \<and>
   fst (determine_side (rule_engine (Some ''even'') []) 2021) = Inr ''below'' \<and>
   fst (determine_side (rule_engine (Some ''2020,2022'') []) 2020) = Inr ''above'' \<and>
   fst (determine_side (rule_engine (Some ''2020,2022'') []) 2021) = Inr ''below'' \<and>
   fst (determine_side (rule_engine (Some ''2020,2022'') []) 2022) = Inr ''above'' \<and>
   fst (determine_side (rule_engine (Some ''ORDER'') [2020, 2021, 2022]) 2020) = Inr ''above'' \<and>
   fst (determine_side (rule_engine (Some ''ORDER'') [2020, 2021, 2022]) 2021) = Inr ''below'' \<and>
   fst (determine_side (rule_engine (Some ''ORDER'') [2020, 2021, 2022]) 2022) = Inr ''above'' \<and>
   fst (determine_side (rule_engine (Some ''ORDER'') [2020, 2021, 2022]) 1999) = Inr ''above''"
proof -
  let ?odd = "rule_engine (Some ''odd'') []"
  let ?even = "rule_engine (Some ''even'') []"
  let ?lst = "rule_engine (Some ''2020,2022'') []"
  let ?ord = "rule_engine (Some ''ORDER'') [2020, 2021, 2022]"
  have o1: "fst (determine_side ?odd 2021) = Inr ''above''"
    using determine_side_rules [of ?odd sample_df 2021] by (simp add: rule_of_samples)
  have o2: "fst (determine_side ?odd 2020) = Inr ''below''"
    using determine_side_rules [of ?odd sample_df 2020] by (simp add: rule_of_samples)
  have e1: "fst (determine_side ?even 2020) = Inr ''above''"
    using determine_side_rules [of ?even sample_df 2020] by (simp add: rule_of_samples)
  have e2: "fst (determine_side ?even 2021) = Inr ''below''"
    using determine_side_rules [of ?even sample_df 2021] by (simp add: rule_of_samples)
  have l1: "fst (determine_side ?lst 2020) = Inr ''above''"
    using determine_side_rules [of ?lst sample_df 2020]
    by (simp add: rule_of_samples parse_samples)
  have l2: "fst (determine_side ?lst 2021) = Inr ''below''"
    using determine_side_rules [of ?lst sample_df 2021]
    by (simp add: rule_of_samples parse_samples)
  have l3: "fst (determine_side ?lst 2022) = Inr ''above''"
    using determine_side_rules [of ?lst sample_df 2022]
    by (simp add: rule_of_samples parse_samples)
  have r0: "\<forall>i. i < 3 \<and> [2020, 2021, 2022] ! i = (2020::int) \<and>
              (\<forall>j<i. [2020, 2021, 2022] ! j \<noteq> (2020::int)) \<longrightarrow>
              fst (determine_side ?ord 2020) = Inr (if even i then ''above'' else ''below'')"
    using determine_side_rules [of ?ord sample_df 2020]
    by (simp add: rule_of_samples order_of_samples)
  have r1: "\<forall>i. i < 3 \<and> [2020, 2021, 2022] ! i = (2021::int) \<and>
              (\<forall>j<i. [2020, 2021, 2022] ! j \<noteq> (2021::int)) \<longrightarrow>
              fst (determine_side ?ord 2021) = Inr (if even i then ''above'' else ''below'')"
    using determine_side_rules [of ?ord sample_df 2021]
    by (simp add: rule_of_samples order_of_samples)
  have r2: "\<forall>i. i < 3 \<and> [2020, 2021, 2022] ! i = (2022::int) \<and>
              (\<forall>j<i. [2020, 2021, 2022] ! j \<noteq> (2022::int)) \<longrightarrow>
              fst (determine_side ?ord 2022) = Inr (if even i then ''above'' else ''below'')"
    using determine_side_rules [of ?ord sample_df 2022]
    by (simp add: rule_of_samples order_of_samples)
  have r3: "fst (determine_side ?ord 1999) = Inr ''above''"
    using determine_side_rules [of ?ord sample_df 1999]
    by (simp add: rule_of_samples order_of_samples)
  from r0 [rule_format, of 0] have q0: "fst (determine_side ?ord 2020) = Inr ''above''"
    by simp
  from r1 [rule_format, of 1] have q1: "fst (determine_side ?ord 2021) = Inr ''below''"
    by simp
  from r2 [rule_format, of 2] have q2: "fst (determine_side ?ord 2022) = Inr ''above''"
    by (simp add: less_Suc_eq numeral_2_eq_2)
  from o1 o2 e1 e2 l1 l2 l3 q0 q1 q2 r3 show ?thesis by blast
qed

lemma rule_of_order:
  "rule_of (e\<lparr>time_config := (time_config e)\<lparr>upper_years := Some ''order''\<rparr>\<rparr>) = ''order''"
  by (simp add: rule_of_def py_lower_def lower_char_def)

lemma order_of_update:
  "order_of (e\<lparr>time_config := tc\<rparr>) yr = order_of e yr"
  by (simp add: order_of_def)

lemma determine_side_order:
  "determine_side (e\<lparr>time_config := (time_config e)\<lparr>upper_years := Some ''order''\<rparr>\<rparr>) yr
     = (order_side (order_of e yr) yr, [])"
  by (simp add: determine_side_unfold rule_of_order order_of_update)

lemma determine_side_Inr:
  "\<exists>s. fst (determine_side e yr) = Inr s \<and> (s = ''above'' \<or> s = ''below'')"
proof (cases "parse_upper_list (py_split (CHR '','') (rule_of e))")
  case (Inl err)
  then have "err = ValueError" by (simp add: parse_upper_list_Inl)
  with Inl order_side_Inr [of "order_of e yr" yr] show ?thesis
    by (auto simp: determine_side_unfold)
next
  case (Inr upper_list)
  with order_side_Inr [of "order_of e yr" yr] show ?thesis
    by (auto simp: determine_side_unfold)
qed

text \<open>
  Claim C6. For every year and every rule string \<open>determine_side\<close> returns above or below
  and no exception escapes. When the rule is none of the five rule names and one of its
  comma-separated tokens is non-blank and not an integer, the function logs one warning
  and returns what the order rule returns.
\<close>

theorem determine_side_fallback:
  "(\<exists>s. fst (determine_side e yr) = Inr s \<and> (s = ''above'' \<or> s = ''below'')) \<and>
   (rule_of e \<notin> {''order'', ''sequence'', ''index'', ''odd'', ''even''} \<and>
    (\<exists>t \<in> set (py_split (CHR '','') (rule_of e)).
        py_strip t \<noteq> [] \<and> py_int (py_strip t) = Inl ValueError) \<longrightarrow>
      snd (determine_side e yr) = [LogWarning (rule_of e)] \<and>
      fst (determine_side e yr) =
        fst (determine_side
               (e\<lparr>time_config := (time_config e)\<lparr>upper_years := Some ''order''\<rparr>\<rparr>) yr))"
proof -
  have "rule_of e \<notin> {''order'', ''sequence'', ''index'', ''odd'', ''even''} \<and>
    (\<exists>t \<in> set (py_split (CHR '','') (rule_of e)).
        py_strip t \<noteq> [] \<and> py_int (py_strip t) = Inl ValueError) \<longrightarrow>
      snd (determine_side e yr) = [LogWarning (rule_of e)] \<and>
      fst (determine_side e yr) =
        fst (determine_side
               (e\<lparr>time_config := (time_config e)\<lparr>upper_years := Some ''order''\<rparr>\<rparr>) yr)"
  proof
    assume h: "rule_of e \<notin> {''order'', ''sequence'', ''index'', ''odd'', ''even''} \<and>
      (\<exists>t \<in> set (py_split (CHR '','') (rule_of e)).
        py_strip t \<noteq> [] \<and> py_int (py_strip t) = Inl ValueError)"
    then have p: "parse_upper_list (py_split (CHR '','') (rule_of e)) = Inl ValueError"
      by (simp add: parse_upper_list_Inl)
    from h have "determine_side e yr = (order_side (order_of e yr) yr, [LogWarning (rule_of e)])"
      by (simp add: determine_side_unfold p)
    then show "snd (determine_side e yr) = [LogWarning (rule_of e)] \<and>
      fst (determine_side e yr) =
        fst (determine_side
               (e\<lparr>time_config := (time_config e)\<lparr>upper_years := Some ''order''\<rparr>\<rparr>) yr)"
      by (simp add: determine_side_order)
  qed
  with determine_side_Inr [of e yr] show ?thesis by blast
qed

lemma split_sample: "py_split (CHR '','') ''20x0,2022'' = [''20x0'', ''2022'']"
  by code_simp

lemma bad_token: "py_strip ''20x0'' = ''20x0'' \<and> py_int ''20x0'' = Inl ValueError"
  by code_simp

lemma order_fallback_sample:
  "determine_side ((rule_engine (Some ''20x0,2022'') [2020, 2021])
      \<lparr>time_config := (time_config (rule_engine (Some ''20x0,2022'') [2020, 2021]))
         \<lparr>upper_years := Some ''order''\<rparr>\<rparr>) 2021 = (Inr ''below'', [])"
  by code_simp

theorem determine_side_fallback_witness:
  "rule_of (rule_engine (Some ''20x0,2022'') [2020, 2021])
      \<notin> {''order'', ''sequence'', ''index'', ''odd'', ''even''} \<and>
   ''20x0'' \<in> set (py_split (CHR '','') (rule_of (rule_engine (Some ''20x0,2022'') [2020, 2021]))) \<and>
   py_strip ''20x0'' \<noteq> [] \<and> py_int (py_strip ''20x0'') = Inl ValueError \<and>
   determine_side (rule_engine (Some ''20x0,2022'') [2020, 2021]) 2021
     = (Inr ''below'', [LogWarning ''20x0,2022''])"
proof -
  let ?e = "rule_engine (Some ''20x0,2022'') [2020, 2021]"
  have r: "rule_of ?e \<notin> {''order'', ''sequence'', ''index'', ''odd'', ''even''}"
    by (simp add: rule_of_samples)
  have t: "''20x0'' \<in> set (py_split (CHR '','') (rule_of ?e))"
    by (simp add: rule_of_samples split_sample)
  have b: "py_strip ''20x0'' \<noteq> []" "py_int (py_strip ''20x0'') = Inl ValueError"
    using bad_token by simp_all
  from t b have ex: "\<exists>t \<in> set (py_split (CHR '','') (rule_of ?e)).
        py_strip t \<noteq> [] \<and> py_int (py_strip t) = Inl ValueError"
    by blast
  from determine_side_fallback [of ?e 2021] r ex
  have "snd (determine_side ?e 2021) = [LogWarning (rule_of ?e)]"
    "fst (determine_side ?e 2021) = fst (determine_side
        (?e\<lparr>time_config := (time_config ?e)\<lparr>upper_years := Some ''order''\<rparr>\<rparr>) 2021)"
    by blast+
  then have "determine_side ?e 2021 = (Inr ''below'', [LogWarning ''20x0,2022''])"
    by (simp add: order_fallback_sample rule_of_samples prod_eq_iff)
  with r t b show ?thesis by blast
qed

text \<open>
  Claim C10. When \<open>upper_years\<close> is absent or the empty string, the rule parses to the
  empty integer list, no warning is logged, and every year is placed below.
\<close>

theorem determine_side_empty_rule:
  "upper_years (time_config e) = None \<or> upper_years (time_config e) = Some [] \<Longrightarrow>
   parse_upper_list (py_split (CHR '','') (rule_of e)) = Inr [] \<and>
   determine_side e yr = (Inr ''below'', [])"
proof -
  assume "upper_years (time_config e) = None \<or> upper_years (time_config e) = Some []"
  then have r: "rule_of e = []"
    by (auto simp: rule_of_def py_lower_def)
  have p: "parse_upper_list (py_split (CHR '','') []) = Inr []"
    by (simp add: py_split_def py_strip_def)
  from r p show ?thesis
    by (simp add: determine_side_unfold)
qed

theorem determine_side_empty_rule_witness:
  "upper_years (time_config (rule_engine None [2020, 2021])) = None \<and>
   upper_years (time_config (rule_engine (Some []) [2020, 2021])) = Some [] \<and>
   determine_side (rule_engine None [2020, 2021]) 2020 = (Inr ''below'', []) \<and>
   determine_side (rule_engine (Some []) [2020, 2021]) 2020 = (Inr ''below'', []) \<and>
   determine_side (rule_engine (Some []) []) 2021 = (Inr ''below'', [])"
proof -
  have u: "upper_years (time_config (rule_engine None [2020, 2021])) = None"
    "upper_years (time_config (rule_engine (Some []) [2020, 2021])) = Some []"
    "upper_years (time_config (rule_engine (Some []) [])) = Some []"
    by (simp_all add: rule_engine_def init_engine_def)
  from determine_side_empty_rule [of "rule_engine None [2020, 2021]" 2020]
       determine_side_empty_rule [of "rule_engine (Some []) [2020, 2021]" 2020]
       determine_side_empty_rule [of "rule_engine (Some []) []" 2021] u
  show ?thesis by simp
qed

end
